theory Spec2Isabelle
  imports Complex_Main "HOL-Library.Word" "HOL-Library.Char_ord" "HOL-Library.List_Lexorder"
begin

unbundle bit_operations_syntax

section \<open>Row values and their JSON text\<close>

text \<open>
  The data layer of \<^verbatim>\<open>Village.py\<close> moves rows between an embedded SQLite file and a
  MySQL server.  A row is the Python dict \<^verbatim>\<open>dict(zip(columns, row))\<close> built in
  \<^verbatim>\<open>_get_record_data\<close>, or the dict literal a CRUD function hands to
  \<^verbatim>\<open>track_change\<close>: column names in insertion order, each with a value.  A value is
  \<^verbatim>\<open>None\<close>, an \<^verbatim>\<open>int\<close>, a \<^verbatim>\<open>str\<close> (code points below 256, one \<^typ>\<open>char\<close> each), a
  \<^verbatim>\<open>float\<close> (carried as the text \<^verbatim>\<open>json.dumps\<close> prints for it), or any other object,
  carried as the name of its class and its printed form: the \<^verbatim>\<open>Decimal\<close>, \<^verbatim>\<open>date\<close>,
  \<^verbatim>\<open>datetime\<close> and \<^verbatim>\<open>timedelta\<close> values that the MySQL connector returns for
  \<^verbatim>\<open>DECIMAL\<close>, \<^verbatim>\<open>DATE\<close>, \<^verbatim>\<open>TIMESTAMP\<close> and \<^verbatim>\<open>TIME\<close> columns, and \<^verbatim>\<open>bytes\<close>.
\<close>

datatype pyval = PyNone | PyInt int | PyStr string | PyFloat string | PyOther string string

text \<open>
  Exceptions are values.  \<open>error_text\<close> is what \<^verbatim>\<open>f"{e}"\<close> prints.
\<close>

datatype py_error =
  ValueError string | AttributeError string | TypeError string | OverflowError string
| ProgrammingError string

fun error_text :: "py_error \<Rightarrow> string" where
  "error_text (ValueError m) = m"
| "error_text (AttributeError m) = m"
| "error_text (TypeError m) = m"
| "error_text (OverflowError m) = m"
| "error_text (ProgrammingError m) = m"

type_synonym row = "(string \<times> pyval) list"

fun str_nat :: "nat \<Rightarrow> string" where
  "str_nat n = (if n < 10 then [char_of (48 + n)]
                else str_nat (n div 10) @ [char_of (48 + n mod 10)])"

declare str_nat.simps [simp del]

definition str_int :: "int \<Rightarrow> string" where
  "str_int i = (if i < 0 then CHR ''-'' # str_nat (nat (- i)) else str_nat (nat i))"

definition hex_digit :: "nat \<Rightarrow> char" where
  "hex_digit n = (if n < 10 then char_of (48 + n) else char_of (87 + n))"

text \<open>
  \<^verbatim>\<open>json.dumps\<close> runs with its default \<^verbatim>\<open>ensure_ascii=True\<close>: backslash, double quote
  and the five short escapes, every other character outside \<^verbatim>\<open>' '..'~'\<close> as
  \<^verbatim>\<open>\u00xx\<close>.
\<close>

definition escape_char :: "char \<Rightarrow> string" where
  "escape_char c =
     (let n = (of_char c :: nat) in
      if n = 0x5C then [CHR 0x5C, CHR 0x5C]
      else if n = 0x22 then [CHR 0x5C, CHR 0x22]
      else if n = 8 then [CHR 0x5C, CHR ''b'']
      else if n = 12 then [CHR 0x5C, CHR ''f'']
      else if n = 10 then [CHR 0x5C, CHR ''n'']
      else if n = 13 then [CHR 0x5C, CHR ''r'']
      else if n = 9 then [CHR 0x5C, CHR ''t'']
      else if 0x20 \<le> n \<and> n \<le> 0x7E then [c]
      else [CHR 0x5C, CHR ''u'', CHR ''0'', CHR ''0'', hex_digit (n div 16), hex_digit (n mod 16)])"

definition json_str :: "string \<Rightarrow> string" where
  "json_str s = CHR 0x22 # concat (map escape_char s) @ [CHR 0x22]"

text \<open>
  \<^verbatim>\<open>json.dumps\<close> raises \<^verbatim>\<open>TypeError\<close> at the first value, in the order of its
  traversal, whose class it does not know.  \<open>json_check\<close> is that test on the items in
  the order given, and \<open>serializable\<close> says that no value of the row is rejected.
\<close>

fun json_rejected :: "pyval \<Rightarrow> string option" where
  "json_rejected (PyOther cls r) = Some cls"
| "json_rejected v = None"

definition not_serializable :: "string \<Rightarrow> py_error" where
  "not_serializable cls = TypeError (''Object of type '' @ cls @ '' is not JSON serializable'')"

fun json_check :: "row \<Rightarrow> py_error option" where
  "json_check [] = None"
| "json_check (kv # kvs) =
     (case json_rejected (snd kv) of
        Some cls \<Rightarrow> Some (not_serializable cls)
      | None \<Rightarrow> json_check kvs)"

definition serializable :: "row \<Rightarrow> bool" where
  "serializable d = list_all (\<lambda>kv. json_rejected (snd kv) = None) d"

text \<open>
  The text of a value that \<^verbatim>\<open>json.dumps\<close> accepts.  For a rejected value there is no
  text (the last equation only makes the function total); the functions below that can
  meet one test \<open>json_check\<close> first and raise.
\<close>

fun json_val :: "pyval \<Rightarrow> string" where
  "json_val PyNone = ''null''"
| "json_val (PyInt i) = str_int i"
| "json_val (PyStr s) = json_str s"
| "json_val (PyFloat t) = t"
| "json_val (PyOther cls r) = []"

fun join :: "string \<Rightarrow> string list \<Rightarrow> string" where
  "join sep [] = []"
| "join sep [x] = x"
| "join sep (x # y # ys) = x @ sep @ join sep (y # ys)"

definition json_item :: "string \<times> pyval \<Rightarrow> string" where
  "json_item kv = json_str (fst kv) @ '': '' @ json_val (snd kv)"

text \<open>
  The text of \<^verbatim>\<open>json.dumps(data, sort_keys=True)\<close> on a dict that it accepts; the keys are
  column names.
\<close>

definition json_dumps_sorted :: "row \<Rightarrow> string" where
  "json_dumps_sorted d = ''{'' @ join '', '' (map json_item (sort_key fst d)) @ ''}''"

text \<open>
  The text of \<^verbatim>\<open>json.dumps(x)\<close> as \<^verbatim>\<open>_store_conflict_record\<close> calls it, on a snapshot
  that may be \<^verbatim>\<open>None\<close>: no key sorting, \<^verbatim>\<open>null\<close> for \<^verbatim>\<open>None\<close>.  \<open>try_json_dumps\<close>
  is the call itself, which raises on a value it rejects.
\<close>

definition json_dumps :: "row option \<Rightarrow> string" where
  "json_dumps x = (case x of None \<Rightarrow> ''null''
                   | Some d \<Rightarrow> ''{'' @ join '', '' (map json_item d) @ ''}'')"

definition try_json_dumps :: "row option \<Rightarrow> py_error + string" where
  "try_json_dumps x =
     (case x of
        None \<Rightarrow> Inr (json_dumps None)
      | Some d \<Rightarrow> (case json_check d of Some e \<Rightarrow> Inl e | None \<Rightarrow> Inr (json_dumps (Some d))))"

section \<open>The content hash\<close>

text \<open>\<^verbatim>\<open>hashlib.md5(...).hexdigest()\<close>: RFC 1321, on the bytes of the text.\<close>

definition md5_s :: "nat list" where
  "md5_s = concat (replicate 4 [7, 12, 17, 22]) @ concat (replicate 4 [5, 9, 14, 20])
         @ concat (replicate 4 [4, 11, 16, 23]) @ concat (replicate 4 [6, 10, 15, 21])"

definition md5_K :: "32 word list" where
  "md5_K =
    [0xd76aa478, 0xe8c7b756, 0x242070db, 0xc1bdceee,
     0xf57c0faf, 0x4787c62a, 0xa8304613, 0xfd469501,
     0x698098d8, 0x8b44f7af, 0xffff5bb1, 0x895cd7be,
     0x6b901122, 0xfd987193, 0xa679438e, 0x49b40821,
     0xf61e2562, 0xc040b340, 0x265e5a51, 0xe9b6c7aa,
     0xd62f105d, 0x02441453, 0xd8a1e681, 0xe7d3fbc8,
     0x21e1cde6, 0xc33707d6, 0xf4d50d87, 0x455a14ed,
     0xa9e3e905, 0xfcefa3f8, 0x676f02d9, 0x8d2a4c8a,
     0xfffa3942, 0x8771f681, 0x6d9d6122, 0xfde5380c,
     0xa4beea44, 0x4bdecfa9, 0xf6bb4b60, 0xbebfbc70,
     0x289b7ec6, 0xeaa127fa, 0xd4ef3085, 0x04881d05,
     0xd9d4d039, 0xe6db99e5, 0x1fa27cf8, 0xc4ac5665,
     0xf4292244, 0x432aff97, 0xab9423a7, 0xfc93a039,
     0x655b59c3, 0x8f0ccc92, 0xffeff47d, 0x85845dd1,
     0x6fa87e4f, 0xfe2ce6e0, 0xa3014314, 0x4e0811a1,
     0xf7537e82, 0xbd3af235, 0x2ad7d2bb, 0xeb86d391]"

definition md5_pad :: "8 word list \<Rightarrow> 8 word list" where
  "md5_pad m =
     (let n = length m;
          bits = (of_nat (8 * n) :: 64 word)
      in m @ [0x80] @ replicate ((119 - n mod 64) mod 64) 0
           @ map (\<lambda>i. ucast (drop_bit (8 * i) bits)) [0..<8])"

definition le32 :: "8 word list \<Rightarrow> 32 word" where
  "le32 bs = foldr (\<lambda>b w. ucast b OR push_bit 8 w) bs 0"

definition md5_words :: "8 word list \<Rightarrow> 32 word list" where
  "md5_words blk = map (\<lambda>i. le32 (take 4 (drop (4 * i) blk))) [0..<16]"

type_synonym md5_state = "32 word \<times> 32 word \<times> 32 word \<times> 32 word"

fun md5_step :: "32 word list \<Rightarrow> md5_state \<Rightarrow> nat \<Rightarrow> md5_state" where
  "md5_step M (A, B, C, D) i =
     (let (F, g) =
            (if i < 16 then ((B AND C) OR (NOT B AND D), i)
             else if i < 32 then ((D AND B) OR (NOT D AND C), (5 * i + 1) mod 16)
             else if i < 48 then (B XOR C XOR D, (3 * i + 5) mod 16)
             else (C XOR (B OR NOT D), (7 * i) mod 16));
          F' = F + A + md5_K ! i + M ! g
      in (D, B + word_rotl (md5_s ! i) F', B, C))"

fun md5_block :: "md5_state \<Rightarrow> 8 word list \<Rightarrow> md5_state" where
  "md5_block (a0, b0, c0, d0) blk =
     (case foldl (md5_step (md5_words blk)) (a0, b0, c0, d0) [0..<64] of
        (A, B, C, D) \<Rightarrow> (a0 + A, b0 + B, c0 + C, d0 + D))"

definition md5 :: "8 word list \<Rightarrow> md5_state" where
  "md5 m =
     (let p = md5_pad m
      in foldl md5_block (0x67452301, 0xefcdab89, 0x98badcfe, 0x10325476)
           (map (\<lambda>i. take 64 (drop (64 * i) p)) [0..<length p div 64]))"

definition hex_byte :: "8 word \<Rightarrow> string" where
  "hex_byte b = [hex_digit (unat b div 16), hex_digit (unat b mod 16)]"

definition hex32_le :: "32 word \<Rightarrow> string" where
  "hex32_le w = concat (map (\<lambda>i. hex_byte (ucast (drop_bit (8 * i) w))) [0..<4])"

fun hexdigest :: "md5_state \<Rightarrow> string" where
  "hexdigest (a, b, c, d) = hex32_le a @ hex32_le b @ hex32_le c @ hex32_le d"

definition md5_hex :: "string \<Rightarrow> string" where
  "md5_hex s = hexdigest (md5 (map of_char s))"

text \<open>
  \<^verbatim>\<open>_calculate_data_hash\<close>:
  \<^verbatim>\<open>hashlib.md5(json.dumps(data, sort_keys=True).encode()).hexdigest()\<close>.
  \<open>calculate_data_hash\<close> is the digest of a row that \<^verbatim>\<open>json.dumps\<close> accepts;
  \<open>try_calculate_data_hash\<close> is the call of the method, which raises where
  \<^verbatim>\<open>json.dumps\<close> does.
\<close>

definition calculate_data_hash :: "row \<Rightarrow> string" where
  "calculate_data_hash data = md5_hex (json_dumps_sorted data)"

definition try_calculate_data_hash :: "row \<Rightarrow> py_error + string" where
  "try_calculate_data_hash data =
     (case json_check (sort_key fst data) of
        Some e \<Rightarrow> Inl e
      | None \<Rightarrow> Inr (calculate_data_hash data))"

section \<open>Enumerations and data classes\<close>

datatype SyncStatus = IDLE | SYNCING | CONFLICT | ERROR | COMPLETED

fun SyncStatus_value :: "SyncStatus \<Rightarrow> string" where
  "SyncStatus_value IDLE = ''idle''"
| "SyncStatus_value SYNCING = ''syncing''"
| "SyncStatus_value CONFLICT = ''conflict''"
| "SyncStatus_value ERROR = ''error''"
| "SyncStatus_value COMPLETED = ''completed''"

text \<open>
  \<^verbatim>\<open>SyncStatus(v)\<close>, the lookup of an enum member by value.  Python raises
  \<^verbatim>\<open>ValueError\<close> for a value that no member has; that is \<open>None\<close> here.
\<close>

definition SyncStatus_of_value :: "string \<Rightarrow> SyncStatus option" where
  "SyncStatus_of_value v =
     (if v = ''idle'' then Some IDLE
      else if v = ''syncing'' then Some SYNCING
      else if v = ''conflict'' then Some CONFLICT
      else if v = ''error'' then Some ERROR
      else if v = ''completed'' then Some COMPLETED
      else None)"

datatype ConflictResolution = MYSQL_WINS | SQLITE_WINS | MANUAL | LATEST_TIMESTAMP

fun ConflictResolution_value :: "ConflictResolution \<Rightarrow> string" where
  "ConflictResolution_value MYSQL_WINS = ''mysql_wins''"
| "ConflictResolution_value SQLITE_WINS = ''sqlite_wins''"
| "ConflictResolution_value MANUAL = ''manual''"
| "ConflictResolution_value LATEST_TIMESTAMP = ''latest_timestamp''"

text \<open>
  A point in time is a natural number (clock ticks).  The source stores
  \<^verbatim>\<open>datetime.now().isoformat()\<close> as text and sorts that text; ISO texts of one clock
  sort as the instants do.
\<close>

type_synonym time = nat

text \<open>
  Two readings of the clock need not agree.  Where a method reads the clock more than
  once, it is given the readings it will get, in order: \<open>clock 0\<close> is the first.
\<close>

type_synonym clock = "nat \<Rightarrow> time"

record SyncRecord =
  sr_table_name :: string
  sr_record_id :: int
  sr_operation :: string
  sr_timestamp :: time
  sr_data_hash :: string
  sr_sync_status :: SyncStatus
  sr_conflict_data :: "row option"

record ConflictRecord =
  cf_table_name :: string
  cf_record_id :: int
  cf_sqlite_data :: "row option"
  cf_mysql_data :: row
  cf_sqlite_timestamp :: time
  cf_mysql_timestamp :: time
  cf_resolution_strategy :: ConflictResolution
  cf_resolved :: bool

section \<open>The tables of the SQLite file and the two stores\<close>

text \<open>
  Rows of \<^verbatim>\<open>SyncTracking\<close>, \<^verbatim>\<open>SyncLog\<close> and \<^verbatim>\<open>ConflictResolution\<close>, as
  \<^verbatim>\<open>_initialize_sync_tracking\<close> declares them.  Each table is the list of its rows in
  insertion order; no statement of the source deletes from them.  The column
  \<^verbatim>\<open>conflict_data\<close> of \<^verbatim>\<open>SyncTracking\<close> is left out: no statement writes it, so it is
  always \<^verbatim>\<open>NULL\<close> and \<^verbatim>\<open>_get_pending_sync_records\<close> reads it as \<^verbatim>\<open>None\<close>.
\<close>

record tracking_row =
  trk_table_name :: string
  trk_record_id :: int
  trk_operation :: string
  trk_timestamp :: time
  trk_data_hash :: string
  trk_sync_status :: string
  trk_synced_at :: "time option"

record log_row =
  log_sync_session_id :: string
  log_message :: string
  log_level :: string

record conflict_row =
  res_conflict_id :: nat
  res_table_name :: string
  res_record_id :: int
  res_sqlite_data :: string
  res_mysql_data :: string
  res_sqlite_timestamp :: time
  res_mysql_timestamp :: time
  res_resolution_strategy :: string
  res_resolved :: int
  res_resolved_at :: "time option"
  res_created_at :: time

text \<open>
  A store (the SQLite file's data tables, or the MySQL database) gives the rows of each
  table.  Both stores are taken to be reachable and to carry the schema the migration
  system creates, so a statement fails only where the Python around it does: where
  \<^verbatim>\<open>json.dumps\<close> rejects a value, where \<^verbatim>\<open>sqlite3\<close> cannot bind an integer, where
  \<^verbatim>\<open>None\<close> is taken for a dict, and where the statement built is not SQL.
\<close>

type_synonym database = "string \<Rightarrow> row list"

text \<open>
  The state of a \<^verbatim>\<open>DatabaseSyncManager\<close>: its attributes \<^verbatim>\<open>sync_status\<close> and
  \<^verbatim>\<open>conflicts\<close>, the three tables it keeps in the SQLite file, and the two stores it
  reads and writes.
\<close>

record sync_manager =
  sync_status :: SyncStatus
  conflicts :: "ConflictRecord list"
  tbl_SyncTracking :: "tracking_row list"
  tbl_SyncLog :: "log_row list"
  tbl_ConflictResolution :: "conflict_row list"
  sqlite_db :: database
  mysql_db :: database

definition sync_tables :: "string list" where
  "sync_tables = [''Members'', ''Contributions'', ''Loans'', ''Repayments'', ''Users'', ''Settings'']"

definition get_primary_key_column :: "string \<Rightarrow> string" where
  "get_primary_key_column table_name =
     (if table_name = ''Members'' then ''member_id''
      else if table_name = ''Contributions'' then ''contribution_id''
      else if table_name = ''Loans'' then ''loan_id''
      else if table_name = ''Repayments'' then ''repayment_id''
      else if table_name = ''Users'' then ''username''
      else if table_name = ''Settings'' then ''setting_name''
      else ''id'')"

text \<open>
  The test \<^verbatim>\<open>WHERE pk = ?\<close> with an integer parameter.  An integer key matches when it
  is the integer.  The keys of \<^verbatim>\<open>Users\<close> and \<^verbatim>\<open>Settings\<close> are text: SQLite gives the
  parameter the affinity of the column, so a text key matches when it is the decimal text
  of the integer.  (MySQL compares a text key with an integer as numbers, which also lets
  texts such as \<^verbatim>\<open>'07'\<close> match 7; for these two tables the test here is SQLite's.)
\<close>

definition text_key :: "string \<Rightarrow> bool" where
  "text_key table_name \<longleftrightarrow> table_name = ''Users'' \<or> table_name = ''Settings''"

definition has_key :: "string \<Rightarrow> int \<Rightarrow> row \<Rightarrow> bool" where
  "has_key table_name rid r \<longleftrightarrow>
     (case map_of r (get_primary_key_column table_name) of
        Some (PyInt k) \<Rightarrow> k = rid
      | Some (PyStr s) \<Rightarrow> text_key table_name \<and> s = str_int rid
      | _ \<Rightarrow> False)"

text \<open>
  \<^verbatim>\<open>sqlite3\<close> binds a Python \<^verbatim>\<open>int\<close> as a signed 64-bit integer and raises
  \<^verbatim>\<open>OverflowError\<close> for any other.
\<close>

definition sqlite_int_ok :: "int \<Rightarrow> bool" where
  "sqlite_int_ok i \<longleftrightarrow> - (2 ^ 63) \<le> i \<and> i < 2 ^ 63"

definition int_too_large :: py_error where
  "int_too_large = OverflowError ''Python int too large to convert to SQLite INTEGER''"

text \<open>
  \<^verbatim>\<open>_get_record_data\<close>: \<^verbatim>\<open>SELECT * ... WHERE pk = ?\<close>, \<^verbatim>\<open>fetchone()\<close>.
  \<open>get_record_data\<close> is the row found; \<open>get_record_data_sqlite\<close> is the call on the
  SQLite connection, where the parameter has to be bound first.
\<close>

definition get_record_data :: "database \<Rightarrow> string \<Rightarrow> int \<Rightarrow> row option" where
  "get_record_data db table_name rid = find (has_key table_name rid) (db table_name)"

definition get_record_data_sqlite :: "database \<Rightarrow> string \<Rightarrow> int \<Rightarrow> py_error + row option" where
  "get_record_data_sqlite db table_name rid =
     (if sqlite_int_ok rid then Inr (get_record_data db table_name rid) else Inl int_too_large)"

text \<open>
  \<^verbatim>\<open>_insert_record_to_mysql\<close>.  \<^verbatim>\<open>data.keys()\<close> on \<^verbatim>\<open>None\<close> raises.  The callers
  insert only a row read under a key that MySQL was just seen not to hold, so the server's
  duplicate-key rejection is not a branch here.
\<close>

definition none_has_no_keys :: py_error where
  "none_has_no_keys =
     AttributeError ([CHR 0x27] @ ''NoneType'' @ [CHR 0x27] @ '' object has no attribute ''
                     @ [CHR 0x27] @ ''keys'' @ [CHR 0x27])"

definition insert_record_to_mysql :: "database \<Rightarrow> string \<Rightarrow> row option \<Rightarrow> py_error + database" where
  "insert_record_to_mysql db table_name data =
     (case data of
        None \<Rightarrow> Inl none_has_no_keys
      | Some d \<Rightarrow> Inr (db(table_name := db table_name @ [d])))"

text \<open>
  \<^verbatim>\<open>_update_record_in_mysql\<close>: \<^verbatim>\<open>UPDATE t SET col = %s, ... WHERE pk = %s\<close> over the
  columns of \<^verbatim>\<open>data\<close> other than the key.  When \<^verbatim>\<open>data\<close> has no other column the
  \<^verbatim>\<open>SET\<close> clause is empty and the server rejects the statement; the message is the
  server's.
\<close>

definition empty_set_clause :: "string \<Rightarrow> int \<Rightarrow> py_error" where
  "empty_set_clause table_name rid =
     ProgrammingError
       (''1064 (42000): You have an error in your SQL syntax; check the manual that ''
        @ ''corresponds to your MySQL server version for the right syntax to use near ''
        @ [CHR 0x27] @ ''WHERE '' @ get_primary_key_column table_name @ '' = '' @ str_int rid
        @ [CHR 0x27] @ '' at line 1'')"

definition set_columns :: "string \<Rightarrow> row \<Rightarrow> row \<Rightarrow> row" where
  "set_columns pk d r =
     map (\<lambda>(c, v). if c \<noteq> pk then (case map_of d c of Some v' \<Rightarrow> (c, v') | None \<Rightarrow> (c, v))
                     else (c, v)) r"

definition update_record_in_mysql ::
  "database \<Rightarrow> string \<Rightarrow> int \<Rightarrow> row option \<Rightarrow> py_error + database" where
  "update_record_in_mysql db table_name rid data =
     (case data of
        None \<Rightarrow> Inl none_has_no_keys
      | Some d \<Rightarrow>
          if filter (\<lambda>c. c \<noteq> get_primary_key_column table_name) (map fst d) = []
          then Inl (empty_set_clause table_name rid)
          else
            Inr (db(table_name :=
                   map (\<lambda>r. if has_key table_name rid r
                             then set_columns (get_primary_key_column table_name) d r else r)
                       (db table_name))))"

definition delete_record_from_mysql :: "database \<Rightarrow> string \<Rightarrow> int \<Rightarrow> database" where
  "delete_record_from_mysql db table_name rid =
     db(table_name := filter (\<lambda>r. \<not> has_key table_name rid r) (db table_name))"

definition log_sync_message :: "string \<Rightarrow> string \<Rightarrow> string \<Rightarrow> sync_manager \<Rightarrow> sync_manager" where
  "log_sync_message session_id message level st =
     st\<lparr>tbl_SyncLog := tbl_SyncLog st @
          [\<lparr>log_sync_session_id = session_id, log_message = message, log_level = level\<rparr>]\<rparr>"

text \<open>\<^verbatim>\<open>f"{record.table_name}:{record.record_id}"\<close>\<close>

definition record_label :: "string \<Rightarrow> int \<Rightarrow> string" where
  "record_label table_name rid = table_name @ '':'' @ str_int rid"

section \<open>The sync engine\<close>

text \<open>
  \<^verbatim>\<open>_store_conflict_record\<close>: one \<^verbatim>\<open>INSERT INTO ConflictResolution\<close>.  The two
  snapshots are turned into JSON text, SQLite's first, while the parameters are built, and
  the record id is bound when the statement is executed; either can raise, and then no row
  is stored.  The columns the statement does not name take their defaults:
  \<^verbatim>\<open>conflict_id\<close> the next \<^verbatim>\<open>AUTOINCREMENT\<close> value, \<^verbatim>\<open>resolved\<close> 0, \<^verbatim>\<open>resolved_at\<close>
  \<^verbatim>\<open>NULL\<close>, \<^verbatim>\<open>created_at\<close> the time of the insertion.
\<close>

definition next_conflict_id :: "conflict_row list \<Rightarrow> nat" where
  "next_conflict_id rows = Suc (foldr max (map res_conflict_id rows) 0)"

definition store_conflict_record ::
  "time \<Rightarrow> ConflictRecord \<Rightarrow> sync_manager \<Rightarrow> py_error + sync_manager" where
  "store_conflict_record now conflict st =
     (case try_json_dumps (cf_sqlite_data conflict) of
        Inl e \<Rightarrow> Inl e
      | Inr sqlite_text \<Rightarrow>
          (case try_json_dumps (Some (cf_mysql_data conflict)) of
             Inl e \<Rightarrow> Inl e
           | Inr mysql_text \<Rightarrow>
               if \<not> sqlite_int_ok (cf_record_id conflict) then Inl int_too_large
               else
                 Inr (st\<lparr>tbl_ConflictResolution := tbl_ConflictResolution st @
                        [\<lparr>res_conflict_id = next_conflict_id (tbl_ConflictResolution st),
                          res_table_name = cf_table_name conflict,
                          res_record_id = cf_record_id conflict,
                          res_sqlite_data = sqlite_text,
                          res_mysql_data = mysql_text,
                          res_sqlite_timestamp = cf_sqlite_timestamp conflict,
                          res_mysql_timestamp = cf_mysql_timestamp conflict,
                          res_resolution_strategy =
                            ConflictResolution_value (cf_resolution_strategy conflict),
                          res_resolved = 0,
                          res_resolved_at = None,
                          res_created_at = now\<rparr>]\<rparr>)))"

text \<open>
  \<^verbatim>\<open>_create_conflict_record\<close>.  The two timestamps are two readings of
  \<^verbatim>\<open>datetime.now()\<close>, the first for SQLite's; the source comments on each: ``This should
  be from actual record timestamp''.  The third reading is the time of the insertion.
\<close>

definition create_conflict_record ::
  "clock \<Rightarrow> string \<Rightarrow> int \<Rightarrow> row option \<Rightarrow> row \<Rightarrow> sync_manager
   \<Rightarrow> py_error + (ConflictRecord \<times> sync_manager)" where
  "create_conflict_record clock table_name rid sqlite_data mysql_data st =
     (let conflict =
            \<lparr>cf_table_name = table_name,
             cf_record_id = rid,
             cf_sqlite_data = sqlite_data,
             cf_mysql_data = mysql_data,
             cf_sqlite_timestamp = clock 0,
             cf_mysql_timestamp = clock 1,
             cf_resolution_strategy = MANUAL,
             cf_resolved = False\<rparr>
      in case store_conflict_record (clock 2) conflict st of
           Inl e \<Rightarrow> Inl e
         | Inr st' \<Rightarrow> Inr (conflict, st'))"

type_synonym sync_outcome = "py_error + (ConflictRecord option \<times> sync_manager)"

definition handle_insert_sync ::
  "string \<Rightarrow> clock \<Rightarrow> SyncRecord \<Rightarrow> row option \<Rightarrow> row option \<Rightarrow> sync_manager \<Rightarrow> sync_outcome" where
  "handle_insert_sync session_id clock record sqlite_data mysql_data st =
     (case mysql_data of
        None \<Rightarrow>
          (case insert_record_to_mysql (mysql_db st) (sr_table_name record) sqlite_data of
             Inl e \<Rightarrow> Inl e
           | Inr db \<Rightarrow>
               Inr (None,
                    log_sync_message session_id
                      (''Inserted '' @ record_label (sr_table_name record) (sr_record_id record)
                       @ '' to MySQL'') ''INFO'' (st\<lparr>mysql_db := db\<rparr>)))
      | Some m \<Rightarrow>
          (case create_conflict_record clock (sr_table_name record) (sr_record_id record)
                  sqlite_data m st of
             Inl e \<Rightarrow> Inl e
           | Inr (conflict, st') \<Rightarrow> Inr (Some conflict, st')))"

definition handle_update_sync ::
  "string \<Rightarrow> clock \<Rightarrow> SyncRecord \<Rightarrow> row option \<Rightarrow> row option \<Rightarrow> sync_manager \<Rightarrow> sync_outcome" where
  "handle_update_sync session_id clock record sqlite_data mysql_data st =
     (case mysql_data of
        None \<Rightarrow>
          (case insert_record_to_mysql (mysql_db st) (sr_table_name record) sqlite_data of
             Inl e \<Rightarrow> Inl e
           | Inr db \<Rightarrow>
               Inr (None,
                    log_sync_message session_id
                      (''Inserted '' @ record_label (sr_table_name record) (sr_record_id record)
                       @ '' to MySQL (was update)'') ''INFO'' (st\<lparr>mysql_db := db\<rparr>)))
      | Some m \<Rightarrow>
          (case try_calculate_data_hash m of
             Inl e \<Rightarrow> Inl e
           | Inr mysql_hash \<Rightarrow>
               if mysql_hash \<noteq> sr_data_hash record then
                 (case create_conflict_record clock (sr_table_name record) (sr_record_id record)
                         sqlite_data m st of
                    Inl e \<Rightarrow> Inl e
                  | Inr (conflict, st') \<Rightarrow> Inr (Some conflict, st'))
               else
                 (case update_record_in_mysql (mysql_db st) (sr_table_name record)
                         (sr_record_id record) sqlite_data of
                    Inl e \<Rightarrow> Inl e
                  | Inr db \<Rightarrow>
                      Inr (None,
                           log_sync_message session_id
                             (''Updated ''
                              @ record_label (sr_table_name record) (sr_record_id record)
                              @ '' in MySQL'') ''INFO'' (st\<lparr>mysql_db := db\<rparr>)))))"

definition handle_delete_sync ::
  "string \<Rightarrow> SyncRecord \<Rightarrow> row option \<Rightarrow> sync_manager \<Rightarrow> ConflictRecord option \<times> sync_manager" where
  "handle_delete_sync session_id record mysql_data st =
     (case mysql_data of
        Some m \<Rightarrow>
          (None,
           log_sync_message session_id
             (''Deleted '' @ record_label (sr_table_name record) (sr_record_id record)
              @ '' from MySQL'') ''INFO''
             (st\<lparr>mysql_db := delete_record_from_mysql (mysql_db st) (sr_table_name record)
                                  (sr_record_id record)\<rparr>))
      | None \<Rightarrow>
          (None,
           log_sync_message session_id
             (''Record '' @ record_label (sr_table_name record) (sr_record_id record)
              @ '' already deleted from MySQL'') ''INFO'' st))"

text \<open>
  \<^verbatim>\<open>_sync_record\<close>.  The row is read from SQLite first, then from MySQL.  An operation
  other than the three falls through to \<^verbatim>\<open>return None\<close>.  An exception leaves the state
  as it was: in each handler the statement that can raise is the first one that would
  write.
\<close>

definition sync_record :: "string \<Rightarrow> clock \<Rightarrow> SyncRecord \<Rightarrow> sync_manager \<Rightarrow> sync_outcome" where
  "sync_record session_id clock record st =
     (case get_record_data_sqlite (sqlite_db st) (sr_table_name record) (sr_record_id record) of
        Inl e \<Rightarrow> Inl e
      | Inr sqlite_data \<Rightarrow>
          (let mysql_data =
                 get_record_data (mysql_db st) (sr_table_name record) (sr_record_id record)
           in if sr_operation record = ''INSERT'' then
                handle_insert_sync session_id clock record sqlite_data mysql_data st
              else if sr_operation record = ''UPDATE'' then
                handle_update_sync session_id clock record sqlite_data mysql_data st
              else if sr_operation record = ''DELETE'' then
                Inr (handle_delete_sync session_id record mysql_data st)
              else Inr (None, st)))"

text \<open>
  \<^verbatim>\<open>_mark_record_synced\<close>: \<^verbatim>\<open>UPDATE SyncTracking SET sync_status = 'synced',
  synced_at = CURRENT_TIMESTAMP WHERE table_name = ? AND record_id = ? AND operation = ?\<close>.
  The record id is bound as in every statement on SQLite.
\<close>

definition same_triple :: "string \<Rightarrow> int \<Rightarrow> string \<Rightarrow> tracking_row \<Rightarrow> bool" where
  "same_triple table_name rid operation r \<longleftrightarrow>
     trk_table_name r = table_name \<and> trk_record_id r = rid \<and> trk_operation r = operation"

definition mark_record_synced ::
  "time \<Rightarrow> string \<Rightarrow> int \<Rightarrow> string \<Rightarrow> sync_manager \<Rightarrow> py_error + sync_manager" where
  "mark_record_synced now table_name rid operation st =
     (if \<not> sqlite_int_ok rid then Inl int_too_large
      else
        Inr (st\<lparr>tbl_SyncTracking :=
               map (\<lambda>r. if same_triple table_name rid operation r
                         then r\<lparr>trk_sync_status := ''synced'', trk_synced_at := Some now\<rparr>
                         else r)
                   (tbl_SyncTracking st)\<rparr>))"

text \<open>
  \<^verbatim>\<open>_get_pending_sync_records\<close>.  The query keeps the rows whose \<^verbatim>\<open>sync_status\<close> is
  \<^verbatim>\<open>'pending'\<close>, ordered by \<^verbatim>\<open>timestamp\<close>; rows of equal timestamp are taken in
  insertion order (SQL itself promises no order among them).  Each row is then turned into
  a \<^verbatim>\<open>SyncRecord\<close>, whose field \<^verbatim>\<open>sync_status\<close> is \<^verbatim>\<open>SyncStatus(row[5])\<close>: the lookup
  of the column's text among the values of the enumeration \<^verbatim>\<open>SyncStatus\<close>.
\<close>

definition not_a_valid_SyncStatus :: "string \<Rightarrow> py_error" where
  "not_a_valid_SyncStatus v =
     ValueError ([CHR 0x27] @ v @ [CHR 0x27] @ '' is not a valid SyncStatus'')"

definition to_SyncRecord :: "tracking_row \<Rightarrow> py_error + SyncRecord" where
  "to_SyncRecord r =
     (case SyncStatus_of_value (trk_sync_status r) of
        None \<Rightarrow> Inl (not_a_valid_SyncStatus (trk_sync_status r))
      | Some s \<Rightarrow>
          Inr \<lparr>sr_table_name = trk_table_name r,
               sr_record_id = trk_record_id r,
               sr_operation = trk_operation r,
               sr_timestamp = trk_timestamp r,
               sr_data_hash = trk_data_hash r,
               sr_sync_status = s,
               sr_conflict_data = None\<rparr>)"

text \<open>The loop \<^verbatim>\<open>for row in cursor.fetchall(): records.append(...)\<close>; a raise ends it.\<close>

fun collect_records :: "tracking_row list \<Rightarrow> py_error + SyncRecord list" where
  "collect_records [] = Inr []"
| "collect_records (r # rs) =
     (case to_SyncRecord r of
        Inl e \<Rightarrow> Inl e
      | Inr x \<Rightarrow> (case collect_records rs of Inl e \<Rightarrow> Inl e | Inr xs \<Rightarrow> Inr (x # xs)))"

definition pending_rows :: "tracking_row list \<Rightarrow> tracking_row list" where
  "pending_rows rows = sort_key trk_timestamp (filter (\<lambda>r. trk_sync_status r = ''pending'') rows)"

definition get_pending_sync_records :: "sync_manager \<Rightarrow> py_error + SyncRecord list" where
  "get_pending_sync_records st = collect_records (pending_rows (tbl_SyncTracking st))"

text \<open>
  One pass of the loop \<^verbatim>\<open>for record in pending_records\<close> of
  \<^verbatim>\<open>synchronize_databases\<close>, on the counters \<^verbatim>\<open>conflicts_found\<close> and
  \<^verbatim>\<open>records_synced\<close> and the state.  \<^verbatim>\<open>records_synced\<close> is incremented before
  \<^verbatim>\<open>_mark_record_synced\<close> is called, so it keeps the increment when that call raises.
\<close>

type_synonym loop_state = "nat \<times> nat \<times> sync_manager"

definition failed_to_sync :: "string \<Rightarrow> SyncRecord \<Rightarrow> py_error \<Rightarrow> sync_manager \<Rightarrow> sync_manager" where
  "failed_to_sync session_id record e st =
     log_sync_message session_id
       (''Failed to sync '' @ record_label (sr_table_name record) (sr_record_id record)
        @ '': '' @ error_text e) ''ERROR'' st"

fun sync_loop_body :: "string \<Rightarrow> clock \<Rightarrow> SyncRecord \<Rightarrow> loop_state \<Rightarrow> loop_state" where
  "sync_loop_body session_id clock record (conflicts_found, records_synced, st) =
     (case sync_record session_id clock record st of
        Inr (Some conflict, st') \<Rightarrow>
          (conflicts_found + 1, records_synced, st'\<lparr>conflicts := conflicts st' @ [conflict]\<rparr>)
      | Inr (None, st') \<Rightarrow>
          (case mark_record_synced (clock 0) (sr_table_name record) (sr_record_id record)
                  (sr_operation record) st' of
             Inr st'' \<Rightarrow> (conflicts_found, records_synced + 1, st'')
           | Inl e \<Rightarrow>
               (conflicts_found, records_synced + 1, failed_to_sync session_id record e st'))
      | Inl e \<Rightarrow>
          (conflicts_found, records_synced, failed_to_sync session_id record e st))"

text \<open>A pass reads the clock at most three times; the next pass gets the later readings.\<close>

fun sync_loop :: "string \<Rightarrow> clock \<Rightarrow> SyncRecord list \<Rightarrow> loop_state \<Rightarrow> loop_state" where
  "sync_loop session_id clock [] acc = acc"
| "sync_loop session_id clock (record # rest) acc =
     sync_loop session_id (\<lambda>k. clock (k + 3)) rest (sync_loop_body session_id clock record acc)"

text \<open>
  \<^verbatim>\<open>synchronize_databases\<close>.  The first argument is the module constant
  \<^verbatim>\<open>MYSQL_AVAILABLE\<close> (whether \<^verbatim>\<open>mysql.connector\<close> could be imported), the second the
  session id, the third the reading of the clock when the session starts; the readings
  made inside the loop are taken to follow it one tick apart.  The result is the returned
  flag and the state left behind.
\<close>

definition synchronize_databases ::
  "bool \<Rightarrow> string \<Rightarrow> time \<Rightarrow> sync_manager \<Rightarrow> bool \<times> sync_manager" where
  "synchronize_databases MYSQL_AVAILABLE session_id now st =
     (if sync_status st = SYNCING then (False, st)
      else if \<not> MYSQL_AVAILABLE then (False, st)
      else
        (let st1 = log_sync_message session_id ''Starting database synchronization'' ''INFO''
                     (st\<lparr>sync_status := SYNCING\<rparr>)
         in case get_pending_sync_records st1 of
              Inl e \<Rightarrow>
                (False,
                 (log_sync_message session_id (''Synchronization failed: '' @ error_text e)
                    ''ERROR'' st1)\<lparr>sync_status := ERROR\<rparr>)
            | Inr pending_records \<Rightarrow>
                if pending_records = [] then
                  (True,
                   (log_sync_message session_id ''No pending records to sync'' ''INFO'' st1)
                     \<lparr>sync_status := COMPLETED\<rparr>)
                else
                  (case sync_loop session_id (\<lambda>k. now + k) pending_records (0, 0, st1) of
                     (conflicts_found, records_synced, st2) \<Rightarrow>
                       if conflicts_found > 0 then
                         (False,
                          log_sync_message session_id
                            (''Sync completed with '' @ str_nat conflicts_found @ '' conflicts, ''
                             @ str_nat records_synced @ '' records synced'') ''WARNING''
                            (st2\<lparr>sync_status := CONFLICT\<rparr>))
                       else
                         (True,
                          log_sync_message session_id
                            (''Sync completed successfully, '' @ str_nat records_synced
                             @ '' records synced'') ''INFO''
                            (st2\<lparr>sync_status := COMPLETED\<rparr>)))))"

section \<open>The change tracker\<close>

text \<open>
  \<^verbatim>\<open>track_record_change\<close>: nothing for a table outside \<^verbatim>\<open>sync_tables\<close>; otherwise the
  hash of \<^verbatim>\<open>data\<close> and one \<^verbatim>\<open>INSERT INTO SyncTracking\<close> with status \<^verbatim>\<open>'pending'\<close>.
  The hash raises where \<^verbatim>\<open>json.dumps\<close> rejects a value, the insertion where the record
  id cannot be bound; in both cases nothing has been written.
\<close>

definition track_record_change ::
  "time \<Rightarrow> string \<Rightarrow> int \<Rightarrow> string \<Rightarrow> row \<Rightarrow> sync_manager \<Rightarrow> py_error + sync_manager" where
  "track_record_change now table_name rid operation data st =
     (if table_name \<notin> set sync_tables then Inr st
      else
        (case try_calculate_data_hash data of
           Inl e \<Rightarrow> Inl e
         | Inr data_hash \<Rightarrow>
             if \<not> sqlite_int_ok rid then Inl int_too_large
             else
               Inr (st\<lparr>tbl_SyncTracking := tbl_SyncTracking st @
                      [\<lparr>trk_table_name = table_name,
                        trk_record_id = rid,
                        trk_operation = operation,
                        trk_timestamp = now,
                        trk_data_hash = data_hash,
                        trk_sync_status = ''pending'',
                        trk_synced_at = None\<rparr>]\<rparr>)))"

section \<open>The conflict resolver\<close>

text \<open>
  \<^verbatim>\<open>resolve_conflict\<close>: \<^verbatim>\<open>UPDATE ConflictResolution SET resolved = 1, resolved_at =
  CURRENT_TIMESTAMP, resolution_strategy = ? WHERE conflict_id = ?\<close>, and
  \<^verbatim>\<open>cursor.rowcount > 0\<close> returned.  It is the whole of the method.
\<close>

definition resolve_conflict ::
  "time \<Rightarrow> nat \<Rightarrow> ConflictResolution \<Rightarrow> sync_manager \<Rightarrow> bool \<times> sync_manager" where
  "resolve_conflict now conflict_id resolution st =
     (0 < length (filter (\<lambda>r. res_conflict_id r = conflict_id) (tbl_ConflictResolution st)),
      st\<lparr>tbl_ConflictResolution :=
           map (\<lambda>r. if res_conflict_id r = conflict_id
                     then r\<lparr>res_resolved := 1, res_resolved_at := Some now,
                            res_resolution_strategy := ConflictResolution_value resolution\<rparr>
                     else r)
               (tbl_ConflictResolution st)\<rparr>)"

section \<open>The connection manager\<close>

text \<open>
  The attributes of the second class \<^verbatim>\<open>DatabaseManager\<close> (the one the module-level
  \<^verbatim>\<open>db_manager\<close> is made from) that the health check and the tracker use.  The clock
  \<^verbatim>\<open>time.time()\<close> is a real number of seconds.  \<open>sync_threads_started\<close> is not an
  attribute: it counts the threads \<^verbatim>\<open>_trigger_sync_from_fallback\<close> starts, which is all
  the model keeps of them.
\<close>

record db_manager =
  current_db_type :: "string option"
  mysql_available :: bool
  sqlite_fallback_active :: bool
  sync_manager :: "sync_manager option"
  connection_retry_count :: nat
  max_retry_attempts :: nat
  mysql_check_interval :: real
  last_mysql_check :: real
  sync_threads_started :: nat

text \<open>
  \<^verbatim>\<open>__init__\<close> up to and including \<^verbatim>\<open>_initialize_sync_manager()\<close>, whose outcome (a
  manager, or \<^verbatim>\<open>None\<close> when its construction raised) is the argument.
\<close>

definition new_DatabaseManager :: "sync_manager option \<Rightarrow> db_manager" where
  "new_DatabaseManager sm =
     \<lparr>current_db_type = None,
      mysql_available = False,
      sqlite_fallback_active = False,
      sync_manager = sm,
      connection_retry_count = 0,
      max_retry_attempts = 3,
      mysql_check_interval = 30,
      last_mysql_check = 0,
      sync_threads_started = 0\<rparr>"

definition trigger_sync_from_fallback :: "db_manager \<Rightarrow> db_manager" where
  "trigger_sync_from_fallback dm =
     (case sync_manager dm of
        Some sm \<Rightarrow> dm\<lparr>sync_threads_started := sync_threads_started dm + 1\<rparr>
      | None \<Rightarrow> dm)"

text \<open>
  \<^verbatim>\<open>_check_mysql_availability\<close>.  Arguments: the module constant
  \<^verbatim>\<open>MYSQL_AVAILABLE\<close>, the reading of \<^verbatim>\<open>time.time()\<close>, and whether
  \<^verbatim>\<open>mysql.connector.connect\<close> succeeds when it is tried.
\<close>

definition check_mysql_availability :: "bool \<Rightarrow> real \<Rightarrow> bool \<Rightarrow> db_manager \<Rightarrow> bool \<times> db_manager" where
  "check_mysql_availability MYSQL_AVAILABLE current_time connect_ok dm =
     (if current_time - last_mysql_check dm < mysql_check_interval dm then (mysql_available dm, dm)
      else
        (let dm1 = dm\<lparr>last_mysql_check := current_time\<rparr> in
         if \<not> MYSQL_AVAILABLE then (False, dm1\<lparr>mysql_available := False\<rparr>)
         else if connect_ok then
           (let dm2 = (if sqlite_fallback_active dm1 \<and> \<not> mysql_available dm1
                       then trigger_sync_from_fallback dm1 else dm1)
            in (True, dm2\<lparr>mysql_available := True, sqlite_fallback_active := False,
                          connection_retry_count := 0\<rparr>))
         else
           (let dm2 = (if mysql_available dm1 then dm1\<lparr>sqlite_fallback_active := True\<rparr> else dm1)
            in (False, dm2\<lparr>mysql_available := False\<rparr>))))"

text \<open>
  A probe is made when the connector is there and the rate limit has run out.  A history
  of health checks is a list of clock readings, each with the outcome a probe would have;
  \<open>run_checks\<close> performs them in turn and \<open>probes\<close> lists the outcomes of the probes
  that were really made.
\<close>

definition probe_due :: "bool \<Rightarrow> real \<Rightarrow> db_manager \<Rightarrow> bool" where
  "probe_due MYSQL_AVAILABLE current_time dm \<longleftrightarrow>
     MYSQL_AVAILABLE \<and> \<not> current_time - last_mysql_check dm < mysql_check_interval dm"

fun run_checks :: "bool \<Rightarrow> (real \<times> bool) list \<Rightarrow> db_manager \<Rightarrow> db_manager" where
  "run_checks A [] dm = dm"
| "run_checks A (e # es) dm = run_checks A es (snd (check_mysql_availability A (fst e) (snd e) dm))"

fun probes :: "bool \<Rightarrow> (real \<times> bool) list \<Rightarrow> db_manager \<Rightarrow> bool list" where
  "probes A [] dm = []"
| "probes A (e # es) dm =
     (if probe_due A (fst e) dm then [snd e] else [])
     @ probes A es (snd (check_mysql_availability A (fst e) (snd e) dm))"

text \<open>
  \<^verbatim>\<open>DatabaseManager.track_change\<close>: the tracker is called only with a sync manager and
  on \<^verbatim>\<open>'sqlite'\<close>.  An exception of the tracker is caught and reported to the
  application log; the manager is then as it was.
\<close>

definition track_change ::
  "time \<Rightarrow> string \<Rightarrow> int \<Rightarrow> string \<Rightarrow> row \<Rightarrow> db_manager \<Rightarrow> db_manager" where
  "track_change now table_name rid operation data dm =
     (case sync_manager dm of
        Some sm \<Rightarrow>
          if current_db_type dm = Some ''sqlite''
          then (case track_record_change now table_name rid operation data sm of
                  Inr sm' \<Rightarrow> dm\<lparr>sync_manager := Some sm'\<rparr>
                | Inl e \<Rightarrow> dm)
          else dm
      | None \<Rightarrow> dm)"

section \<open>Example data\<close>

text \<open>
  A member row with the columns the CRUD functions track, the same row after a change of
  the phone number, and a second member; an empty store; a sync manager as
  \<^verbatim>\<open>DatabaseSyncManager.__init__\<close> leaves it, over empty stores.
\<close>

definition member7 :: row where
  "member7 = [(''member_id'', PyInt 7), (''name'', PyStr ''Ada''), (''surname'', PyStr ''Banda''),
              (''phone_number'', PyStr ''0999''), (''email'', PyNone)]"

definition member7_changed :: row where
  "member7_changed =
     [(''member_id'', PyInt 7), (''name'', PyStr ''Ada''), (''surname'', PyStr ''Banda''),
      (''phone_number'', PyStr ''0888''), (''email'', PyNone)]"

definition member8 :: row where
  "member8 = [(''member_id'', PyInt 8), (''name'', PyStr ''Bob''), (''surname'', PyStr ''Phiri''),
              (''phone_number'', PyStr ''0777''), (''email'', PyNone)]"

definition no_rows :: database where
  "no_rows = (\<lambda>t. [])"

definition fresh_manager :: sync_manager where
  "fresh_manager =
     \<lparr>sync_status = IDLE, conflicts = [], tbl_SyncTracking = [], tbl_SyncLog = [],
      tbl_ConflictResolution = [], sqlite_db = no_rows, mysql_db = no_rows\<rparr>"

text \<open>The manager over given contents of the table \<^verbatim>\<open>Members\<close> in SQLite and in MySQL.\<close>

definition manager_over :: "row list \<Rightarrow> row list \<Rightarrow> sync_manager" where
  "manager_over local server =
     fresh_manager\<lparr>sqlite_db := no_rows(''Members'' := local),
                   mysql_db := no_rows(''Members'' := server)\<rparr>"

text \<open>
  The sync manager after \<^verbatim>\<open>track_change\<close> has called \<^verbatim>\<open>track_record_change\<close> on it.
\<close>

definition tracking ::
  "time \<Rightarrow> string \<Rightarrow> int \<Rightarrow> string \<Rightarrow> row \<Rightarrow> sync_manager \<Rightarrow> sync_manager" where
  "tracking now table_name rid operation data st =
     (case track_record_change now table_name rid operation data st of
        Inr st' \<Rightarrow> st'
      | Inl e \<Rightarrow> st)"

text \<open>
  A connection manager that runs on SQLite over the given sync manager; the state after
  \<^verbatim>\<open>_create_conflict_record\<close> has stored a conflict for member 7 (changed in SQLite,
  unchanged in MySQL), with the clock at 9, 10 and 11; and that state after the conflict
  has been resolved once, by hand.
\<close>

definition fallback_manager :: "sync_manager \<Rightarrow> db_manager" where
  "fallback_manager sm = (new_DatabaseManager (Some sm))\<lparr>current_db_type := Some ''sqlite''\<rparr>"

definition conflict_state :: sync_manager where
  "conflict_state =
     (case create_conflict_record (\<lambda>k. 9 + k) ''Members'' 7 (Some member7_changed) member7
             (manager_over [member7_changed] [member7]) of
        Inr (conflict, st) \<Rightarrow> st
      | Inl e \<Rightarrow> manager_over [member7_changed] [member7])"

definition resolved_state :: sync_manager where
  "resolved_state = snd (resolve_conflict 12 1 MANUAL conflict_state)"

text \<open>
  States that the tracker itself produces: the deletion of member 7 tracked over empty
  stores; an update of member 7 tracked while MySQL holds the same row, and while MySQL
  holds the row as it was before; an insert of member 8 (whose row has since left SQLite)
  followed by the deletion of member 7, which MySQL still holds; an insert and a later
  update of member 7 while MySQL does not hold the member; an insert of member 7 while
  MySQL holds the member too; and two deletions of member 7.
\<close>

definition pending_delete_state :: sync_manager where
  "pending_delete_state = tracking 5 ''Members'' 7 ''DELETE'' member7 fresh_manager"

definition pending_update_state :: sync_manager where
  "pending_update_state =
     tracking 5 ''Members'' 7 ''UPDATE'' member7_changed
       (manager_over [member7_changed] [member7_changed])"

definition diverged_update_state :: sync_manager where
  "diverged_update_state =
     tracking 5 ''Members'' 7 ''UPDATE'' member7_changed
       (manager_over [member7_changed] [member7])"

definition two_pending_state :: sync_manager where
  "two_pending_state =
     tracking 6 ''Members'' 7 ''DELETE'' member7
       (tracking 5 ''Members'' 8 ''INSERT'' member8 (manager_over [] [member7]))"

definition insert_then_update_state :: sync_manager where
  "insert_then_update_state =
     tracking 6 ''Members'' 7 ''UPDATE'' member7_changed
       (tracking 5 ''Members'' 7 ''INSERT'' member7 (manager_over [member7_changed] []))"

definition insert_conflict_state :: sync_manager where
  "insert_conflict_state =
     tracking 5 ''Members'' 7 ''INSERT'' member7_changed
       (manager_over [member7_changed] [member7])"

definition two_deletes_state :: sync_manager where
  "two_deletes_state =
     tracking 6 ''Members'' 7 ''DELETE'' member7
       (tracking 5 ''Members'' 7 ''DELETE'' member7 (manager_over [] [member7]))"

text \<open>
  A loan row as MySQL returns it, with a \<^verbatim>\<open>Decimal\<close> amount, and the two entries that a
  session which never enters its loop writes to \<^verbatim>\<open>SyncLog\<close>.
\<close>

definition loan3_server :: row where
  "loan3_server = [(''loan_id'', PyInt 3), (''loan_amount'', PyOther ''Decimal'' ''1500.00'')]"

definition session_log :: "string \<Rightarrow> string \<Rightarrow> string \<Rightarrow> log_row list" where
  "session_log sid level message =
     [\<lparr>log_sync_session_id = sid, log_message = ''Starting database synchronization'',
       log_level = ''INFO''\<rparr>,
      \<lparr>log_sync_session_id = sid, log_message = message, log_level = level\<rparr>]"

section \<open>The content hash is never empty\<close>

lemma length_hex32_le: "length (hex32_le w) = 8"
  by (simp add: hex32_le_def hex_byte_def upt_rec)

lemma length_md5_hex: "length (md5_hex s) = 32"
  by (cases "md5 (map of_char s)") (simp add: md5_hex_def length_hex32_le)

lemma length_calculate_data_hash: "length (calculate_data_hash d) = 32"
  by (simp add: calculate_data_hash_def length_md5_hex)

section \<open>Health checks and the fallback flag\<close>

lemma run_checks_snoc:
  "run_checks A (es @ [e]) dm =
     snd (check_mysql_availability A (fst e) (snd e) (run_checks A es dm))"
  by (induction es arbitrary: dm) simp_all

lemma probes_snoc:
  "probes A (es @ [e]) dm =
     probes A es dm @ (if probe_due A (fst e) (run_checks A es dm) then [snd e] else [])"
  by (induction es arbitrary: dm) simp_all

lemma probes_no_connector: "\<not> A \<Longrightarrow> probes A es dm = []"
  by (induction es arbitrary: dm) (simp_all add: probe_due_def)

lemma check_flags:
  "mysql_available (snd (check_mysql_availability A t ok dm)) =
     (if probe_due A t dm then ok
      else if t - last_mysql_check dm < mysql_check_interval dm then mysql_available dm else False)"
  "sqlite_fallback_active (snd (check_mysql_availability A t ok dm)) =
     (if probe_due A t dm then (\<not> ok \<and> (sqlite_fallback_active dm \<or> mysql_available dm))
      else sqlite_fallback_active dm)"
  by (auto simp: check_mysql_availability_def probe_due_def Let_def trigger_sync_from_fallback_def
           split: option.splits)

text \<open>
  From a new manager, MySQL is marked available exactly when the last probe made
  succeeded, and the fallback flag is up exactly when the last probe made failed after some
  probe had succeeded.
\<close>

lemma flags_after_checks:
  "(mysql_available (run_checks A es (new_DatabaseManager sm)) \<longleftrightarrow>
      probes A es (new_DatabaseManager sm) \<noteq> [] \<and> last (probes A es (new_DatabaseManager sm)))
   \<and> (sqlite_fallback_active (run_checks A es (new_DatabaseManager sm)) \<longleftrightarrow>
      probes A es (new_DatabaseManager sm) \<noteq> [] \<and> \<not> last (probes A es (new_DatabaseManager sm))
      \<and> True \<in> set (probes A es (new_DatabaseManager sm)))"
proof (induction es rule: rev_induct)
  case Nil
  show ?case by (simp add: new_DatabaseManager_def)
next
  case (snoc e es)
  show ?case
  proof (cases "probe_due A (fst e) (run_checks A es (new_DatabaseManager sm))")
    case True
    with snoc show ?thesis
      by (cases "snd e") (auto simp: run_checks_snoc probes_snoc check_flags dest: last_in_set)
  next
    case False
    show ?thesis
    proof (cases A)
      case True
      with False snoc show ?thesis
        by (auto simp: run_checks_snoc probes_snoc check_flags probe_due_def)
    next
      case notA: False
      with False snoc show ?thesis
        by (auto simp: run_checks_snoc probes_snoc check_flags probes_no_connector)
    qed
  qed
qed

text \<open>
  C5, as the code has it.  In every state reached from process start by health checks,
  \<^verbatim>\<open>sqlite_fallback_active\<close> is true if and only if the most recent probe that was made
  failed and some probe before it succeeded.  A failed probe returns \<^verbatim>\<open>False\<close>, leaves
  \<^verbatim>\<open>mysql_available\<close> false, raises \<^verbatim>\<open>sqlite_fallback_active\<close> only if MySQL was marked
  available when the probe began (and otherwise leaves the flag as it was), and does not
  touch \<^verbatim>\<open>connection_retry_count\<close>.
\<close>

theorem fallback_flag_after_health_checks:
  "(sqlite_fallback_active (run_checks A es (new_DatabaseManager sm)) \<longleftrightarrow>
      probes A es (new_DatabaseManager sm) \<noteq> [] \<and> \<not> last (probes A es (new_DatabaseManager sm))
      \<and> True \<in> set (probes A es (new_DatabaseManager sm)))
   \<and> (probe_due A t dm \<longrightarrow>
        \<not> fst (check_mysql_availability A t False dm)
        \<and> \<not> mysql_available (snd (check_mysql_availability A t False dm))
        \<and> (sqlite_fallback_active (snd (check_mysql_availability A t False dm)) \<longleftrightarrow>
             sqlite_fallback_active dm \<or> mysql_available dm)
        \<and> connection_retry_count (snd (check_mysql_availability A t False dm)) =
             connection_retry_count dm)"
proof -
  have "probe_due A t dm \<Longrightarrow>
        \<not> fst (check_mysql_availability A t False dm)
        \<and> connection_retry_count (snd (check_mysql_availability A t False dm)) =
             connection_retry_count dm"
    by (simp add: check_mysql_availability_def probe_due_def Let_def)
  then show ?thesis
    using flags_after_checks [of A es sm] by (simp add: check_flags)
qed

text \<open>
  C5, witness: a probe that succeeds at second 1000 and one that fails at second 2000.
  The second probe is due, and it raises the flag.
\<close>

theorem fallback_flag_after_health_checks_witness:
  "probe_due True 2000 (run_checks True [(1000, True)] (new_DatabaseManager None))
   \<and> probes True [(1000, True), (2000, False)] (new_DatabaseManager None) = [True, False]
   \<and> sqlite_fallback_active
        (run_checks True [(1000, True), (2000, False)] (new_DatabaseManager None))
   \<and> sqlite_fallback_active (snd (check_mysql_availability True 2000 False
         (run_checks True [(1000, True)] (new_DatabaseManager None))))"
  using fallback_flag_after_health_checks [of True "[(1000, True), (2000, False)]" None 2000
          "run_checks True [(1000, True)] (new_DatabaseManager None)"]
  by (simp add: probe_due_def check_mysql_availability_def new_DatabaseManager_def Let_def)

text \<open>
  C5, counterexample to the claim as stated: the process starts while MySQL is down.  The
  first health check makes a probe, the probe fails, and afterwards
  \<^verbatim>\<open>sqlite_fallback_active\<close> is still false and \<^verbatim>\<open>connection_retry_count\<close> is still 0.
\<close>

theorem first_failed_probe_leaves_fallback_off:
  "probes True [(1000, False)] (new_DatabaseManager None) = [False]
   \<and> \<not> sqlite_fallback_active (run_checks True [(1000, False)] (new_DatabaseManager None))
   \<and> \<not> mysql_available (run_checks True [(1000, False)] (new_DatabaseManager None))
   \<and> connection_retry_count (run_checks True [(1000, False)] (new_DatabaseManager None)) = 0"
  by (simp add: probe_due_def check_mysql_availability_def new_DatabaseManager_def Let_def)

section \<open>What the tracker appends\<close>

lemma json_check_None: "json_check d = None \<longleftrightarrow> serializable d"
  by (induction d) (auto simp: serializable_def split: option.splits)

lemma serializable_sort: "serializable (sort_key fst d) = serializable d"
  by (simp add: serializable_def list_all_iff)

lemma try_calculate_data_hash_eq:
  "try_calculate_data_hash d =
     (if serializable d then Inr (calculate_data_hash d)
      else Inl (the (json_check (sort_key fst d))))"
proof (cases "json_check (sort_key fst d)")
  case None
  then have "serializable d"
    using json_check_None [of "sort_key fst d"] by (simp add: serializable_sort)
  with None show ?thesis by (simp add: try_calculate_data_hash_def)
next
  case (Some e)
  then have "\<not> serializable d"
    using json_check_None [of "sort_key fst d"] by (simp add: serializable_sort)
  with Some show ?thesis by (simp add: try_calculate_data_hash_def)
qed

text \<open>
  What \<^verbatim>\<open>track_record_change\<close> leaves in \<^verbatim>\<open>SyncTracking\<close>, the exception swallowed as
  \<^verbatim>\<open>track_change\<close> swallows it: one more pending row exactly when the table is enrolled,
  \<^verbatim>\<open>json.dumps\<close> accepts the row and the record id can be bound.
\<close>

lemma tracking_rows:
  "tbl_SyncTracking (tracking now t rid op data st) =
     (if t \<in> set sync_tables \<and> serializable data \<and> sqlite_int_ok rid
      then tbl_SyncTracking st @
           [\<lparr>trk_table_name = t, trk_record_id = rid, trk_operation = op,
             trk_timestamp = now, trk_data_hash = calculate_data_hash data,
             trk_sync_status = ''pending'', trk_synced_at = None\<rparr>]
      else tbl_SyncTracking st)"
  by (simp add: tracking_def track_record_change_def try_calculate_data_hash_eq)

lemma tracking_ok:
  "t \<in> set sync_tables \<Longrightarrow> serializable data \<Longrightarrow> sqlite_int_ok rid \<Longrightarrow>
   tracking now t rid op data st =
     st\<lparr>tbl_SyncTracking := tbl_SyncTracking st @
          [\<lparr>trk_table_name = t, trk_record_id = rid, trk_operation = op,
            trk_timestamp = now, trk_data_hash = calculate_data_hash data,
            trk_sync_status = ''pending'', trk_synced_at = None\<rparr>]\<rparr>"
  by (simp add: tracking_def track_record_change_def try_calculate_data_hash_eq)

lemma members_enrolled: "''Members'' \<in> set sync_tables"
  by (simp add: sync_tables_def)

lemma small_ids: "sqlite_int_ok 7" "sqlite_int_ok 8" "sqlite_int_ok 3"
  by (simp_all add: sqlite_int_ok_def)

lemma members_serializable:
  "serializable member7" "serializable member7_changed" "serializable member8"
  by (simp_all add: serializable_def member7_def member7_changed_def member8_def)

lemmas tracked = tracking_ok members_enrolled small_ids members_serializable

text \<open>
  C6, as the code has it.  While the manager runs on SQLite with a sync manager, a call of
  \<^verbatim>\<open>track_change\<close> appends exactly one row to \<^verbatim>\<open>SyncTracking\<close>, with status
  \<^verbatim>\<open>'pending'\<close> and with \<^verbatim>\<open>data_hash\<close> the hash of the row that was passed, when the
  table is enrolled, \<^verbatim>\<open>json.dumps\<close> accepts the row and the record id fits SQLite's
  64-bit integer; in every other case it appends nothing.  The hash is the MD5 digest in
  hexadecimal, 32 characters, for every operation, \<^verbatim>\<open>DELETE\<close> included.
\<close>

theorem track_change_appends_one_pending_record:
  "sync_manager dm = Some sm \<Longrightarrow> current_db_type dm = Some ''sqlite'' \<Longrightarrow>
   map_option tbl_SyncTracking (sync_manager (track_change now t rid op data dm)) =
     Some (if t \<in> set sync_tables \<and> serializable data \<and> sqlite_int_ok rid
           then tbl_SyncTracking sm @
                [\<lparr>trk_table_name = t, trk_record_id = rid, trk_operation = op,
                  trk_timestamp = now, trk_data_hash = calculate_data_hash data,
                  trk_sync_status = ''pending'', trk_synced_at = None\<rparr>]
           else tbl_SyncTracking sm)
   \<and> length (calculate_data_hash data) = 32"
  by (simp add: track_change_def track_record_change_def try_calculate_data_hash_eq
        length_calculate_data_hash)

text \<open>
  C6, witness: on SQLite, an insert into \<^verbatim>\<open>Loans\<close> is tracked with one pending row; an
  insert into \<^verbatim>\<open>DividendCalculations\<close>, which is not enrolled, a loan row with a
  \<^verbatim>\<open>Decimal\<close> amount, and a loan with the id \<open>2 ^ 63\<close> are tracked with none.
\<close>

theorem track_change_appends_one_pending_record_witness:
  "sync_manager (fallback_manager fresh_manager) = Some fresh_manager
   \<and> current_db_type (fallback_manager fresh_manager) = Some ''sqlite''
   \<and> map_option tbl_SyncTracking
        (sync_manager (track_change 5 ''Loans'' 3 ''INSERT'' [(''loan_id'', PyInt 3)]
           (fallback_manager fresh_manager))) =
      Some [\<lparr>trk_table_name = ''Loans'', trk_record_id = 3, trk_operation = ''INSERT'',
              trk_timestamp = 5, trk_data_hash = calculate_data_hash [(''loan_id'', PyInt 3)],
              trk_sync_status = ''pending'', trk_synced_at = None\<rparr>]
   \<and> map_option tbl_SyncTracking
        (sync_manager (track_change 5 ''DividendCalculations'' 3 ''INSERT'' [(''id'', PyInt 3)]
           (fallback_manager fresh_manager))) = Some []
   \<and> map_option tbl_SyncTracking
        (sync_manager (track_change 5 ''Loans'' 3 ''UPDATE'' loan3_server
           (fallback_manager fresh_manager))) = Some []
   \<and> map_option tbl_SyncTracking
        (sync_manager (track_change 5 ''Loans'' (2 ^ 63) ''INSERT'' [(''loan_id'', PyInt (2 ^ 63))]
           (fallback_manager fresh_manager))) = Some []"
  using track_change_appends_one_pending_record
          [of "fallback_manager fresh_manager" fresh_manager 5 "''Loans''" 3 "''INSERT''"
              "[(''loan_id'', PyInt 3)]"]
        track_change_appends_one_pending_record
          [of "fallback_manager fresh_manager" fresh_manager 5 "''DividendCalculations''" 3
              "''INSERT''" "[(''id'', PyInt 3)]"]
        track_change_appends_one_pending_record
          [of "fallback_manager fresh_manager" fresh_manager 5 "''Loans''" 3 "''UPDATE''"
              loan3_server]
        track_change_appends_one_pending_record
          [of "fallback_manager fresh_manager" fresh_manager 5 "''Loans''" "2 ^ 63" "''INSERT''"
              "[(''loan_id'', PyInt (2 ^ 63))]"]
  by (simp add: fallback_manager_def new_DatabaseManager_def fresh_manager_def sync_tables_def
        serializable_def loan3_server_def sqlite_int_ok_def)

text \<open>
  C6, counterexample to the claim as stated: the deletion of member 7 is tracked on
  SQLite.  The one row appended carries the hash of the deleted row, which is not the
  empty text.
\<close>

theorem delete_is_tracked_with_a_hash:
  "map_option (map trk_data_hash \<circ> tbl_SyncTracking)
     (sync_manager (track_change 5 ''Members'' 7 ''DELETE'' member7
        (fallback_manager fresh_manager))) = Some [calculate_data_hash member7]
   \<and> calculate_data_hash member7 \<noteq> ''''"
proof -
  have "length (calculate_data_hash member7) = 32"
    by (rule length_calculate_data_hash)
  then have "calculate_data_hash member7 \<noteq> ''''"
    by auto
  then show ?thesis
    by (simp add: track_change_def track_record_change_def try_calculate_data_hash_eq
          fallback_manager_def new_DatabaseManager_def fresh_manager_def
          members_enrolled small_ids members_serializable)
qed

section \<open>The conflict resolver\<close>

lemma resolve_conflict_table:
  "tbl_ConflictResolution (snd (resolve_conflict now cid s st)) =
     map (\<lambda>r. if res_conflict_id r = cid
               then r\<lparr>res_resolved := 1, res_resolved_at := Some now,
                      res_resolution_strategy := ConflictResolution_value s\<rparr>
               else r) (tbl_ConflictResolution st)"
  by (simp add: resolve_conflict_def)

lemma resolve_conflict_found:
  "r \<in> set (tbl_ConflictResolution st) \<Longrightarrow> res_conflict_id r = cid \<Longrightarrow>
   fst (resolve_conflict now cid s st)"
  by (auto simp: resolve_conflict_def filter_empty_conv)

lemma resolve_conflict_marks:
  "r \<in> set (tbl_ConflictResolution st) \<Longrightarrow> res_conflict_id r = cid \<Longrightarrow>
   r\<lparr>res_resolved := 1, res_resolved_at := Some now,
     res_resolution_strategy := ConflictResolution_value s\<rparr>
   \<in> set (tbl_ConflictResolution (snd (resolve_conflict now cid s st)))"
  by (force simp: resolve_conflict_table)

lemma filter_other_ids:
  "filter (\<lambda>x. res_conflict_id x \<noteq> cid)
     (map (\<lambda>r. if res_conflict_id r = cid
               then r\<lparr>res_resolved := 1, res_resolved_at := Some now,
                      res_resolution_strategy := v\<rparr>
               else r) xs)
   = filter (\<lambda>x. res_conflict_id x \<noteq> cid) xs"
  by (induction xs) auto

lemma conflict_state_rows:
  "tbl_ConflictResolution conflict_state =
     [\<lparr>res_conflict_id = 1, res_table_name = ''Members'', res_record_id = 7,
       res_sqlite_data = json_dumps (Some member7_changed),
       res_mysql_data = json_dumps (Some member7),
       res_sqlite_timestamp = 9, res_mysql_timestamp = 10,
       res_resolution_strategy = ''manual'', res_resolved = 0, res_resolved_at = None,
       res_created_at = 11\<rparr>]"
  "mysql_db conflict_state = no_rows(''Members'' := [member7])"
proof -
  have ok: "json_check member7_changed = None" "json_check member7 = None"
    by (simp_all add: json_check_None members_serializable)
  show "tbl_ConflictResolution conflict_state =
     [\<lparr>res_conflict_id = 1, res_table_name = ''Members'', res_record_id = 7,
       res_sqlite_data = json_dumps (Some member7_changed),
       res_mysql_data = json_dumps (Some member7),
       res_sqlite_timestamp = 9, res_mysql_timestamp = 10,
       res_resolution_strategy = ''manual'', res_resolved = 0, res_resolved_at = None,
       res_created_at = 11\<rparr>]"
    by (simp add: conflict_state_def create_conflict_record_def store_conflict_record_def
          try_json_dumps_def ok small_ids next_conflict_id_def manager_over_def
          fresh_manager_def)
  show "mysql_db conflict_state = no_rows(''Members'' := [member7])"
    by (simp add: conflict_state_def create_conflict_record_def store_conflict_record_def
          try_json_dumps_def ok small_ids manager_over_def fresh_manager_def)
qed

lemma member7_on_server:
  "get_record_data (no_rows(''Members'' := [member7])) ''Members'' 7 = Some member7"
  by (simp add: get_record_data_def has_key_def get_primary_key_column_def member7_def)

lemma json_differs: "json_dumps (Some member7) \<noteq> json_dumps (Some member7_changed)"
  by (simp add: json_dumps_def member7_def member7_changed_def json_item_def json_str_def
        escape_char_def Let_def str_int_def str_nat.simps)

text \<open>
  C4, as the code has it.  For every unresolved conflict in the table,
  \<^verbatim>\<open>resolve_conflict\<close> with \<^verbatim>\<open>SQLITE_WINS\<close> returns true and marks the row resolved, with
  the strategy \<^verbatim>\<open>'sqlite_wins'\<close> and the time of the call.  It writes nothing to MySQL:
  the row read there for the conflict's table and key is the row that was there before.
\<close>

theorem resolve_sqlite_wins_writes_no_row:
  "r \<in> set (tbl_ConflictResolution st) \<Longrightarrow> res_conflict_id r = cid \<Longrightarrow> res_resolved r = 0 \<Longrightarrow>
   fst (resolve_conflict now cid SQLITE_WINS st)
   \<and> mysql_db (snd (resolve_conflict now cid SQLITE_WINS st)) = mysql_db st
   \<and> get_record_data (mysql_db (snd (resolve_conflict now cid SQLITE_WINS st)))
        (res_table_name r) (res_record_id r) =
      get_record_data (mysql_db st) (res_table_name r) (res_record_id r)
   \<and> r\<lparr>res_resolved := 1, res_resolved_at := Some now,
        res_resolution_strategy := ''sqlite_wins''\<rparr>
      \<in> set (tbl_ConflictResolution (snd (resolve_conflict now cid SQLITE_WINS st)))"
proof -
  assume r: "r \<in> set (tbl_ConflictResolution st)" and cid: "res_conflict_id r = cid"
  have "mysql_db (snd (resolve_conflict now cid SQLITE_WINS st)) = mysql_db st"
    by (simp add: resolve_conflict_def)
  then show ?thesis
    using resolve_conflict_found [OF r cid] resolve_conflict_marks [OF r cid, where now = now and s = SQLITE_WINS]
    by simp
qed

text \<open>
  C4, witness: the stored conflict for member 7 is unresolved and has id 1; resolving it
  with \<^verbatim>\<open>SQLITE_WINS\<close> returns true, records the strategy, and MySQL still holds the
  unchanged row.
\<close>

theorem resolve_sqlite_wins_writes_no_row_witness:
  "hd (tbl_ConflictResolution conflict_state) \<in> set (tbl_ConflictResolution conflict_state)
   \<and> res_conflict_id (hd (tbl_ConflictResolution conflict_state)) = 1
   \<and> res_resolved (hd (tbl_ConflictResolution conflict_state)) = 0
   \<and> fst (resolve_conflict 12 1 SQLITE_WINS conflict_state)
   \<and> get_record_data (mysql_db (snd (resolve_conflict 12 1 SQLITE_WINS conflict_state)))
        ''Members'' 7 = Some member7
   \<and> map res_resolution_strategy
        (tbl_ConflictResolution (snd (resolve_conflict 12 1 SQLITE_WINS conflict_state)))
      = [''sqlite_wins'']"
  using resolve_sqlite_wins_writes_no_row
          [of "hd (tbl_ConflictResolution conflict_state)" conflict_state 1 12]
  by (simp add: conflict_state_rows member7_on_server resolve_conflict_def)

text \<open>
  C4, counterexample to the claim as stated: the conflict with id 1 is unresolved and its
  SQLite snapshot is the changed row of member 7.  After \<^verbatim>\<open>resolve_conflict\<close> with
  \<^verbatim>\<open>SQLITE_WINS\<close> has returned true, the row read from MySQL is the unchanged one, whose
  JSON text is not the snapshot.
\<close>

theorem sqlite_wins_leaves_primary_row:
  "map res_sqlite_data (tbl_ConflictResolution conflict_state) = [json_dumps (Some member7_changed)]
   \<and> map res_resolved (tbl_ConflictResolution conflict_state) = [0]
   \<and> map res_conflict_id (tbl_ConflictResolution conflict_state) = [1]
   \<and> fst (resolve_conflict 12 1 SQLITE_WINS conflict_state)
   \<and> get_record_data (mysql_db (snd (resolve_conflict 12 1 SQLITE_WINS conflict_state)))
        ''Members'' 7 = Some member7
   \<and> json_dumps (Some member7) \<noteq> json_dumps (Some member7_changed)"
  using json_differs
  by (simp add: conflict_state_rows member7_on_server resolve_conflict_def)

text \<open>
  C8, as the code has it.  For every conflict already marked resolved,
  \<^verbatim>\<open>resolve_conflict\<close> returns true and leaves it resolved, but it is not a no-op: the
  stored strategy becomes the one passed and \<^verbatim>\<open>resolved_at\<close> the time of this call.
  Rows with another id are untouched, and so is MySQL.
\<close>

theorem resolve_again_overwrites_strategy:
  "r \<in> set (tbl_ConflictResolution st) \<Longrightarrow> res_conflict_id r = cid \<Longrightarrow> res_resolved r = 1 \<Longrightarrow>
   fst (resolve_conflict now cid s st)
   \<and> r\<lparr>res_resolved_at := Some now, res_resolution_strategy := ConflictResolution_value s\<rparr>
      \<in> set (tbl_ConflictResolution (snd (resolve_conflict now cid s st)))
   \<and> filter (\<lambda>x. res_conflict_id x \<noteq> cid)
        (tbl_ConflictResolution (snd (resolve_conflict now cid s st)))
      = filter (\<lambda>x. res_conflict_id x \<noteq> cid) (tbl_ConflictResolution st)
   \<and> map res_resolved (tbl_ConflictResolution (snd (resolve_conflict now cid s st)))
      = map (\<lambda>x. if res_conflict_id x = cid then 1 else res_resolved x)
          (tbl_ConflictResolution st)
   \<and> mysql_db (snd (resolve_conflict now cid s st)) = mysql_db st"
proof -
  assume r: "r \<in> set (tbl_ConflictResolution st)" and cid: "res_conflict_id r = cid"
    and res: "res_resolved r = 1"
  have "r\<lparr>res_resolved := 1\<rparr> = r"
    using res by simp
  then have a: "r\<lparr>res_resolved_at := Some now,
          res_resolution_strategy := ConflictResolution_value s\<rparr>
        \<in> set (tbl_ConflictResolution (snd (resolve_conflict now cid s st)))"
    using resolve_conflict_marks [OF r cid, where now = now and s = s] by simp
  have b: "filter (\<lambda>x. res_conflict_id x \<noteq> cid)
             (tbl_ConflictResolution (snd (resolve_conflict now cid s st)))
           = filter (\<lambda>x. res_conflict_id x \<noteq> cid) (tbl_ConflictResolution st)"
    unfolding resolve_conflict_table by (rule filter_other_ids)
  have c: "map res_resolved (tbl_ConflictResolution (snd (resolve_conflict now cid s st)))
      = map (\<lambda>x. if res_conflict_id x = cid then 1 else res_resolved x)
          (tbl_ConflictResolution st)"
    unfolding resolve_conflict_table by simp
  have d: "mysql_db (snd (resolve_conflict now cid s st)) = mysql_db st"
    by (simp add: resolve_conflict_def)
  show ?thesis
    using resolve_conflict_found [OF r cid] a b c d by simp
qed

text \<open>
  C8, witness: the conflict with id 1, resolved by hand at time 12, is resolved again at
  time 15 with \<^verbatim>\<open>MYSQL_WINS\<close>.
\<close>

theorem resolve_again_overwrites_strategy_witness:
  "hd (tbl_ConflictResolution resolved_state) \<in> set (tbl_ConflictResolution resolved_state)
   \<and> res_conflict_id (hd (tbl_ConflictResolution resolved_state)) = 1
   \<and> res_resolved (hd (tbl_ConflictResolution resolved_state)) = 1
   \<and> fst (resolve_conflict 15 1 MYSQL_WINS resolved_state)
   \<and> map res_resolved
        (tbl_ConflictResolution (snd (resolve_conflict 15 1 MYSQL_WINS resolved_state))) = [1]"
  using resolve_again_overwrites_strategy
          [of "hd (tbl_ConflictResolution resolved_state)" resolved_state 1 15 MYSQL_WINS]
  by (simp add: resolved_state_def conflict_state_rows resolve_conflict_def)

text \<open>
  C8, counterexample to the claim as stated: the conflict with id 1 is resolved, with
  strategy \<^verbatim>\<open>'manual'\<close>, since time 12.  A second \<^verbatim>\<open>resolve_conflict\<close>, at time 15 with
  \<^verbatim>\<open>MYSQL_WINS\<close>, returns true and changes the stored record: its strategy is now
  \<^verbatim>\<open>'mysql_wins'\<close> and its \<^verbatim>\<open>resolved_at\<close> is 15.
\<close>

theorem second_resolve_changes_the_record:
  "map res_resolved (tbl_ConflictResolution resolved_state) = [1]
   \<and> map res_resolution_strategy (tbl_ConflictResolution resolved_state) = [''manual'']
   \<and> map res_resolved_at (tbl_ConflictResolution resolved_state) = [Some 12]
   \<and> fst (resolve_conflict 15 1 MYSQL_WINS resolved_state)
   \<and> map res_resolution_strategy
        (tbl_ConflictResolution (snd (resolve_conflict 15 1 MYSQL_WINS resolved_state)))
      = [''mysql_wins'']
   \<and> map res_resolved_at
        (tbl_ConflictResolution (snd (resolve_conflict 15 1 MYSQL_WINS resolved_state)))
      = [Some 15]"
  by (simp add: resolved_state_def conflict_state_rows resolve_conflict_def)

section \<open>What a sync session does\<close>

text \<open>The example states, written out.\<close>

lemma example_states:
  "pending_delete_state =
     (fresh_manager)\<lparr>tbl_SyncTracking :=
          [\<lparr>trk_table_name = ''Members'', trk_record_id = 7, trk_operation = ''DELETE'',
            trk_timestamp = 5, trk_data_hash = calculate_data_hash member7,
            trk_sync_status = ''pending'', trk_synced_at = None\<rparr>]\<rparr>"
  "pending_update_state =
     (manager_over [member7_changed] [member7_changed])\<lparr>tbl_SyncTracking :=
          [\<lparr>trk_table_name = ''Members'', trk_record_id = 7, trk_operation = ''UPDATE'',
            trk_timestamp = 5, trk_data_hash = calculate_data_hash member7_changed,
            trk_sync_status = ''pending'', trk_synced_at = None\<rparr>]\<rparr>"
  "diverged_update_state =
     (manager_over [member7_changed] [member7])\<lparr>tbl_SyncTracking :=
          [\<lparr>trk_table_name = ''Members'', trk_record_id = 7, trk_operation = ''UPDATE'',
            trk_timestamp = 5, trk_data_hash = calculate_data_hash member7_changed,
            trk_sync_status = ''pending'', trk_synced_at = None\<rparr>]\<rparr>"
  "two_pending_state =
     (manager_over [] [member7])\<lparr>tbl_SyncTracking :=
          [\<lparr>trk_table_name = ''Members'', trk_record_id = 8, trk_operation = ''INSERT'',
            trk_timestamp = 5, trk_data_hash = calculate_data_hash member8,
            trk_sync_status = ''pending'', trk_synced_at = None\<rparr>,
           \<lparr>trk_table_name = ''Members'', trk_record_id = 7, trk_operation = ''DELETE'',
            trk_timestamp = 6, trk_data_hash = calculate_data_hash member7,
            trk_sync_status = ''pending'', trk_synced_at = None\<rparr>]\<rparr>"
  "insert_then_update_state =
     (manager_over [member7_changed] [])\<lparr>tbl_SyncTracking :=
          [\<lparr>trk_table_name = ''Members'', trk_record_id = 7, trk_operation = ''INSERT'',
            trk_timestamp = 5, trk_data_hash = calculate_data_hash member7,
            trk_sync_status = ''pending'', trk_synced_at = None\<rparr>,
           \<lparr>trk_table_name = ''Members'', trk_record_id = 7, trk_operation = ''UPDATE'',
            trk_timestamp = 6, trk_data_hash = calculate_data_hash member7_changed,
            trk_sync_status = ''pending'', trk_synced_at = None\<rparr>]\<rparr>"
  "insert_conflict_state =
     (manager_over [member7_changed] [member7])\<lparr>tbl_SyncTracking :=
          [\<lparr>trk_table_name = ''Members'', trk_record_id = 7, trk_operation = ''INSERT'',
            trk_timestamp = 5, trk_data_hash = calculate_data_hash member7_changed,
            trk_sync_status = ''pending'', trk_synced_at = None\<rparr>]\<rparr>"
  "two_deletes_state =
     (manager_over [] [member7])\<lparr>tbl_SyncTracking :=
          [\<lparr>trk_table_name = ''Members'', trk_record_id = 7, trk_operation = ''DELETE'',
            trk_timestamp = 5, trk_data_hash = calculate_data_hash member7,
            trk_sync_status = ''pending'', trk_synced_at = None\<rparr>,
           \<lparr>trk_table_name = ''Members'', trk_record_id = 7, trk_operation = ''DELETE'',
            trk_timestamp = 6, trk_data_hash = calculate_data_hash member7,
            trk_sync_status = ''pending'', trk_synced_at = None\<rparr>]\<rparr>"
  by (simp_all add: pending_delete_state_def pending_update_state_def diverged_update_state_def
        two_pending_state_def insert_then_update_state_def insert_conflict_state_def
        two_deletes_state_def tracked manager_over_def fresh_manager_def)

lemmas state_defs = example_states manager_over_def fresh_manager_def no_rows_def

lemmas lookup_defs = get_record_data_def has_key_def get_primary_key_column_def

text \<open>
  The query of \<^verbatim>\<open>_get_pending_sync_records\<close> returns the pending rows, by ascending
  timestamp, rows of equal timestamp in insertion order.
\<close>

lemma set_pending_rows:
  "set (pending_rows rows) = {r \<in> set rows. trk_sync_status r = ''pending''}"
  by (auto simp: pending_rows_def)

lemma sorted_pending_rows: "sorted (map trk_timestamp (pending_rows rows))"
  by (simp add: pending_rows_def)

lemma stable_pending_rows:
  "filter (\<lambda>r. trk_timestamp r = t) (pending_rows rows) =
   filter (\<lambda>r. trk_timestamp r = t) (filter (\<lambda>r. trk_sync_status r = ''pending'') rows)"
  by (simp add: pending_rows_def sort_key_stable)

text \<open>
  But no pending row becomes a \<^verbatim>\<open>SyncRecord\<close>: \<^verbatim>\<open>SyncStatus('pending')\<close> raises
  \<^verbatim>\<open>ValueError\<close>, since the values of \<^verbatim>\<open>SyncStatus\<close> are \<^verbatim>\<open>idle\<close>, \<^verbatim>\<open>syncing\<close>,
  \<^verbatim>\<open>conflict\<close>, \<^verbatim>\<open>error\<close> and \<^verbatim>\<open>completed\<close>.  So \<^verbatim>\<open>_get_pending_sync_records\<close>
  returns the empty list when nothing is pending and raises otherwise.
\<close>

lemma to_SyncRecord_pending:
  "trk_sync_status r = ''pending'' \<Longrightarrow> to_SyncRecord r = Inl (not_a_valid_SyncStatus ''pending'')"
  by (simp add: to_SyncRecord_def SyncStatus_of_value_def)

lemma collect_records_pending:
  "rows \<noteq> [] \<Longrightarrow> \<forall>r\<in>set rows. trk_sync_status r = ''pending'' \<Longrightarrow>
   collect_records rows = Inl (not_a_valid_SyncStatus ''pending'')"
  by (cases rows) (simp_all add: to_SyncRecord_pending)

lemma get_pending_sync_records_eq:
  "get_pending_sync_records st =
     (if \<exists>r\<in>set (tbl_SyncTracking st). trk_sync_status r = ''pending''
      then Inl (not_a_valid_SyncStatus ''pending'') else Inr [])"
proof (cases "\<exists>r\<in>set (tbl_SyncTracking st). trk_sync_status r = ''pending''")
  case True
  then have "pending_rows (tbl_SyncTracking st) \<noteq> []"
    using set_pending_rows [of "tbl_SyncTracking st"] by auto
  moreover have "\<forall>r\<in>set (pending_rows (tbl_SyncTracking st)). trk_sync_status r = ''pending''"
    by (simp add: set_pending_rows)
  ultimately show ?thesis
    using True by (simp add: get_pending_sync_records_def collect_records_pending)
next
  case False
  then have "set (pending_rows (tbl_SyncTracking st)) = {}"
    by (auto simp: set_pending_rows)
  then have "pending_rows (tbl_SyncTracking st) = []"
    by simp
  with False show ?thesis by (simp add: get_pending_sync_records_def)
qed

text \<open>
  Hence the whole of a session: refused while another runs or without the connector;
  failed, with status \<^verbatim>\<open>ERROR\<close>, when some row is pending; completed, with nothing to
  do, when none is.  The loop over the pending records is never entered, and a session
  changes nothing but \<^verbatim>\<open>sync_status\<close> and \<^verbatim>\<open>SyncLog\<close>.
\<close>

lemma synchronize_databases_eq:
  "synchronize_databases A sid now st =
     (if sync_status st = SYNCING \<or> \<not> A then (False, st)
      else if \<exists>r\<in>set (tbl_SyncTracking st). trk_sync_status r = ''pending''
      then (False, st\<lparr>sync_status := ERROR, tbl_SyncLog := tbl_SyncLog st @
              session_log sid ''ERROR''
                (''Synchronization failed: '' @ error_text (not_a_valid_SyncStatus ''pending''))\<rparr>)
      else (True, st\<lparr>sync_status := COMPLETED, tbl_SyncLog := tbl_SyncLog st @
              session_log sid ''INFO'' ''No pending records to sync''\<rparr>))"
  by (simp add: synchronize_databases_def get_pending_sync_records_eq log_sync_message_def Let_def
        session_log_def)





text \<open>
  For instance: the deletion of member 7 was tracked, so one row is pending.  The first
  session returns \<^verbatim>\<open>False\<close> with status \<^verbatim>\<open>ERROR\<close> and the row is still pending; the
  second session, run on the state the first one left, does the same.
\<close>

lemma failed_session_repeats:
  "map trk_sync_status (tbl_SyncTracking pending_delete_state) = [''pending'']
   \<and> \<not> fst (synchronize_databases True ''20240101_100000'' 10 pending_delete_state)
   \<and> sync_status (snd (synchronize_databases True ''20240101_100000'' 10 pending_delete_state))
      = ERROR
   \<and> map trk_sync_status (tbl_SyncTracking
        (snd (synchronize_databases True ''20240101_100000'' 10 pending_delete_state)))
      = [''pending'']
   \<and> \<not> fst (synchronize_databases True ''20240101_100030'' 40
              (snd (synchronize_databases True ''20240101_100000'' 10 pending_delete_state)))
   \<and> sync_status (snd (synchronize_databases True ''20240101_100030'' 40
              (snd (synchronize_databases True ''20240101_100000'' 10 pending_delete_state))))
      = ERROR
   \<and> map trk_sync_status (tbl_SyncTracking (snd (synchronize_databases True ''20240101_100030'' 40
              (snd (synchronize_databases True ''20240101_100000'' 10 pending_delete_state)))))
      = [''pending'']"
  by (simp add: synchronize_databases_eq state_defs)

text \<open>
  C2, on the code.  An update of member 7 is pending and MySQL holds the member.  Where
  the hash recorded is the hash of the row MySQL holds, the session returns \<^verbatim>\<open>False\<close>
  and the record is still pending, not synced.  Where MySQL holds the row as it was before
  the update, the session returns \<^verbatim>\<open>False\<close> as well and no conflict is recorded, neither
  in \<^verbatim>\<open>ConflictResolution\<close> nor in \<^verbatim>\<open>conflicts\<close>.
\<close>

theorem pending_update_is_not_replayed:
  "map trk_operation (tbl_SyncTracking pending_update_state) = [''UPDATE'']
   \<and> map trk_data_hash (tbl_SyncTracking pending_update_state)
      = [calculate_data_hash member7_changed]
   \<and> get_record_data (mysql_db pending_update_state) ''Members'' 7 = Some member7_changed
   \<and> \<not> fst (synchronize_databases True ''20240101_100000'' 10 pending_update_state)
   \<and> map trk_sync_status (tbl_SyncTracking
        (snd (synchronize_databases True ''20240101_100000'' 10 pending_update_state)))
      = [''pending'']
   \<and> get_record_data (mysql_db diverged_update_state) ''Members'' 7 = Some member7
   \<and> get_record_data (sqlite_db diverged_update_state) ''Members'' 7 = Some member7_changed
   \<and> \<not> fst (synchronize_databases True ''20240101_100000'' 10 diverged_update_state)
   \<and> tbl_ConflictResolution
        (snd (synchronize_databases True ''20240101_100000'' 10 diverged_update_state)) = []
   \<and> conflicts (snd (synchronize_databases True ''20240101_100000'' 10 diverged_update_state))
      = []"
  by (simp add: synchronize_databases_eq state_defs lookup_defs member7_def member7_changed_def)

text \<open>
  C7, on the code.  Two rows are pending: the insert of member 8, whose row is no longer
  in SQLite, and the deletion of member 7, which MySQL holds.  The session returns
  \<^verbatim>\<open>False\<close> with status \<^verbatim>\<open>ERROR\<close>; both rows are still pending, MySQL still holds
  member 7, and the log has the session's failure and no entry for either record.
\<close>

theorem pending_row_aborts_the_session:
  "map trk_sync_status (tbl_SyncTracking two_pending_state) = [''pending'', ''pending'']
   \<and> \<not> fst (synchronize_databases True ''20240101_100000'' 10 two_pending_state)
   \<and> sync_status (snd (synchronize_databases True ''20240101_100000'' 10 two_pending_state))
      = ERROR
   \<and> map trk_sync_status (tbl_SyncTracking
        (snd (synchronize_databases True ''20240101_100000'' 10 two_pending_state)))
      = [''pending'', ''pending'']
   \<and> get_record_data (mysql_db
        (snd (synchronize_databases True ''20240101_100000'' 10 two_pending_state))) ''Members'' 7
      = Some member7
   \<and> map log_message (tbl_SyncLog
        (snd (synchronize_databases True ''20240101_100000'' 10 two_pending_state)))
      = [''Starting database synchronization'',
         ''Synchronization failed: '' @ error_text (not_a_valid_SyncStatus ''pending'')]"
  by (simp add: synchronize_databases_eq session_log_def state_defs lookup_defs member7_def)

text \<open>
  C9, on the code.  Member 7 was inserted at time 5 and updated at time 6 on SQLite, which
  holds the updated row; MySQL does not hold the member.  After the session MySQL still
  does not hold the member, and both records are still pending.
\<close>

theorem tracked_changes_never_reach_the_primary:
  "map trk_timestamp (tbl_SyncTracking insert_then_update_state) = [5, 6]
   \<and> map trk_operation (tbl_SyncTracking insert_then_update_state) = [''INSERT'', ''UPDATE'']
   \<and> get_record_data (sqlite_db insert_then_update_state) ''Members'' 7 = Some member7_changed
   \<and> \<not> fst (synchronize_databases True ''20240101_100000'' 10 insert_then_update_state)
   \<and> get_record_data (mysql_db
        (snd (synchronize_databases True ''20240101_100000'' 10 insert_then_update_state)))
        ''Members'' 7 = None
   \<and> map trk_sync_status (tbl_SyncTracking
        (snd (synchronize_databases True ''20240101_100000'' 10 insert_then_update_state)))
      = [''pending'', ''pending'']"
  by (simp add: synchronize_databases_eq state_defs lookup_defs member7_def member7_changed_def)

text \<open>
  C3, on the code.  The insert of member 7 is pending and both SQLite and MySQL hold the
  member, the case in which \<^verbatim>\<open>_handle_insert_sync\<close> reports a conflict.  The session
  returns \<^verbatim>\<open>False\<close> with status \<^verbatim>\<open>ERROR\<close>: no row is stored in
  \<^verbatim>\<open>ConflictResolution\<close>, no conflict is kept in \<^verbatim>\<open>conflicts\<close>, and the record's row is
  pending as before.
\<close>

theorem conflict_of_pending_insert_is_not_recorded:
  "map trk_operation (tbl_SyncTracking insert_conflict_state) = [''INSERT'']
   \<and> map trk_sync_status (tbl_SyncTracking insert_conflict_state) = [''pending'']
   \<and> get_record_data (sqlite_db insert_conflict_state) ''Members'' 7 = Some member7_changed
   \<and> get_record_data (mysql_db insert_conflict_state) ''Members'' 7 = Some member7
   \<and> \<not> fst (synchronize_databases True ''20240101_100000'' 10 insert_conflict_state)
   \<and> sync_status (snd (synchronize_databases True ''20240101_100000'' 10 insert_conflict_state))
      = ERROR
   \<and> tbl_ConflictResolution
        (snd (synchronize_databases True ''20240101_100000'' 10 insert_conflict_state)) = []
   \<and> conflicts (snd (synchronize_databases True ''20240101_100000'' 10 insert_conflict_state))
      = []
   \<and> map trk_sync_status (tbl_SyncTracking
        (snd (synchronize_databases True ''20240101_100000'' 10 insert_conflict_state)))
      = [''pending'']"
  by (simp add: synchronize_databases_eq state_defs lookup_defs member7_def member7_changed_def)

text \<open>
  C10, on the code.  The deletion of member 7 was tracked twice, so two pending rows share
  table, key and operation, and MySQL holds the member.  The session returns \<^verbatim>\<open>False\<close>:
  neither row is marked synced and MySQL still holds the member.
\<close>

theorem duplicate_records_are_not_marked:
  "map trk_table_name (tbl_SyncTracking two_deletes_state) = [''Members'', ''Members'']
   \<and> map trk_record_id (tbl_SyncTracking two_deletes_state) = [7, 7]
   \<and> map trk_operation (tbl_SyncTracking two_deletes_state) = [''DELETE'', ''DELETE'']
   \<and> map trk_sync_status (tbl_SyncTracking two_deletes_state) = [''pending'', ''pending'']
   \<and> get_record_data (mysql_db two_deletes_state) ''Members'' 7 = Some member7
   \<and> \<not> fst (synchronize_databases True ''20240101_100000'' 10 two_deletes_state)
   \<and> map trk_sync_status (tbl_SyncTracking
        (snd (synchronize_databases True ''20240101_100000'' 10 two_deletes_state)))
      = [''pending'', ''pending'']
   \<and> map trk_synced_at (tbl_SyncTracking
        (snd (synchronize_databases True ''20240101_100000'' 10 two_deletes_state)))
      = [None, None]
   \<and> get_record_data (mysql_db
        (snd (synchronize_databases True ''20240101_100000'' 10 two_deletes_state))) ''Members'' 7
      = Some member7"
  by (simp add: synchronize_databases_eq state_defs lookup_defs member7_def)

section \<open>The loop over the pending records\<close>

text \<open>
  The loop that a session never enters.  Its \<^verbatim>\<open>except\<close> logs the error of a record and
  goes on; a conflict on a row that holds a \<^verbatim>\<open>Decimal\<close> is such an error, since the
  snapshot cannot be stored.
\<close>

lemma sync_loop_body_catches:
  "sync_record sid clock r st = Inl e \<Longrightarrow>
   sync_loop_body sid clock r (cf, rs, st) = (cf, rs, failed_to_sync sid r e st)"
  by simp

lemma decimal_snapshot_is_not_stored:
  "create_conflict_record clock ''Loans'' 3 (Some [(''loan_id'', PyInt 3)]) loan3_server st
   = Inl (not_serializable ''Decimal'')"
  by (simp add: create_conflict_record_def store_conflict_record_def try_json_dumps_def
        loan3_server_def)

end
